theory Spec2Isabelle
  imports Complex_Main "HOL-Library.Char_ord" "HOL-Library.List_Lexorder"
begin

section \<open>Network parameters (\<open>set_options\<close>, the block after ``(more) Testnet'')\<close>




section \<open>Python values and exceptions\<close>

text \<open>
  The exceptions that the modelled functions can raise. \<open>External\<close> stands for any
  exception raised inside a helper or collaborator whose code is outside \<open>client.py\<close>
  (the ledger API, the wallet, \<open>util.value_out\<close>); it propagates unchanged, since
  none of the modelled functions catches it.
\<close>

datatype error =
    NameError string
  | DivisionByZero
  | InvalidOperation
  | KeyError
  | EOFError
  | AttributeError
  | UnicodeDecodeError
  | External string

definition and_then :: "error + 'a \<Rightarrow> ('a \<Rightarrow> error + 'b) \<Rightarrow> error + 'b" where
  "and_then r f = (case r of Inl e \<Rightarrow> Inl e | Inr x \<Rightarrow> f x)"


section \<open>The market view: raw records and their rows\<close>

text \<open>
  What the formatting functions take from outside \<open>client.py\<close>, as parameters:
  \<^item> \<open>value_out\<close> is \<open>util.value_out(quantity, asset)\<close>, whose result type \<open>'v\<close> is
    left open; it may query the ledger and so may raise;
  \<^item> \<open>D_value\<close> is \<open>decimal.Decimal\<close> applied to such a result;
  \<^item> \<open>api_sql_block_index\<close> is the column \<open>block_index\<close> of the rows that
    \<open>util.api('sql', ...)\<close> returns in \<open>last_db_block_index\<close>;
  \<^item> \<open>BET_TYPE_NAME\<close> is the dictionary of that name;
  \<^item> \<open>isodt\<close> is the date formatter of \<open>counterpartylib.lib.log\<close>;
  \<^item> \<open>str_per_UNIT x\<close> is \<open>str(x / config.UNIT)\<close>, a float division printed.
\<close>

record 'v helpers =
  value_out :: "rat \<Rightarrow> string \<Rightarrow> error + 'v"
  D_value :: "'v \<Rightarrow> error + rat"
  api_sql_block_index :: "error + int list"
  BET_TYPE_NAME :: "int \<rightharpoonup> string"
  isodt :: "int \<Rightarrow> string"
  str_per_UNIT :: "int \<Rightarrow> string"





record order_match =
  tx0_hash :: string
  tx1_hash :: string
  match_expire_index :: int



text \<open>\<open>last_db_block_index\<close>: the first row's block index, 0 when there is no row.\<close>

definition last_db_block_index :: "'v helpers \<Rightarrow> error + int" where
  "last_db_block_index h =
     and_then (api_sql_block_index h)
       (\<lambda>results. case results of [] \<Rightarrow> Inr 0 | result # _ \<Rightarrow> Inr result)"




text \<open>
  Modelled from the spec: \<open>make_id\<close> is imported from \<open>counterpartylib.lib.util\<close> and
  its code is not in \<open>client.py\<close>. The specification describes it as a fixed,
  order-independent combination of the two transaction hashes, combined through a
  canonical ordering; the model puts the smaller hash first and concatenates.
\<close>

definition make_id :: "string \<Rightarrow> string \<Rightarrow> string" where
  "make_id hash_1 hash_2 = (if hash_1 \<le> hash_2 then hash_1 @ hash_2 else hash_2 @ hash_1)"

definition format_order_match :: "'v helpers \<Rightarrow> order_match \<Rightarrow> error + string \<times> int" where
  "format_order_match h m =
     (let order_match_id = make_id (tx0_hash m) (tx1_hash m) in
      and_then (last_db_block_index h) (\<lambda>last.
      Inr (order_match_id, match_expire_index m - last)))"





section \<open>Signing and broadcasting (\<open>sign_tx\<close>)\<close>

text \<open>
  \<open>tx_hex\<close> is a \<open>str\<close> before the first call of the signing tool and the \<open>bytes\<close>
  that \<open>subprocess.check_output\<close> returned afterwards. In Python 3 a \<open>str\<close> and a
  \<open>bytes\<close> are never equal, whatever they hold; the two constructors keep that.
\<close>

datatype pyval = Str string | Bytes string

text \<open>
  What \<open>sign_tx\<close> does to the outside, in order: the log lines, the two prompts and the
  calls of the wallet, of the signing tool and of the network.
\<close>

datatype event =
    Log_unsigned string
  | Log_multisig_manual
  | Input_confirm
  | Call_is_mine string
  | Call_sign_raw_transaction string
  | Input_private_key string
  | Call_pybtctool pyval string string
  | Log_signed string
  | Call_send_raw_transaction string
  | Log_broadcasted string

text \<open>
  The collaborators, as parameters: \<open>script.is_multisig\<close>, the three wallet calls (each
  may raise), and \<open>pybtctool sign tx_hex i key\<close> run through \<open>check_output\<close>, which
  gives the tool's standard output, or \<open>None\<close> when the call raises (a non-zero exit
  status, a missing executable).
\<close>

record collaborators =
  is_multisig :: "string \<Rightarrow> bool"
  is_mine :: "string \<Rightarrow> error + bool"
  sign_raw_transaction :: "string \<Rightarrow> error + string"
  pybtctool :: "pyval \<Rightarrow> string \<Rightarrow> string \<Rightarrow> string option"
  send_raw_transaction :: "string \<Rightarrow> error + string"

text \<open>
  Modelled from the spec: \<open>script.b58_digits\<close> is a constant of \<open>counterpartylib\<close>; the
  specification calls it the Base58 alphabet.
\<close>

definition b58_digits :: string where
  "b58_digits = ''123456789ABCDEFGHJKLMNPQRSTUVWXYZabcdefghijkmnopqrstuvwxyz''"

text \<open>
  \<open>raise exceptions.TransactionError(msg)\<close>, as \<open>client.py\<close> writes it three times in
  \<open>sign_tx\<close>. The module imports no name \<open>exceptions\<close> (its imports are lines 3 to 34),
  and nothing in it assigns one. Evaluating \<open>exceptions.TransactionError\<close> therefore
  raises \<open>NameError\<close> for the name \<open>exceptions\<close>, before any \<open>TransactionError\<close> is made
  and whatever the message is.
\<close>

definition raise_exceptions_TransactionError :: "string \<Rightarrow> error" where
  "raise_exceptions_TransactionError msg = NameError ''exceptions''"

text \<open>\<open>str(i)\<close> for a non-negative integer.\<close>

fun str_nat :: "nat \<Rightarrow> string" where
  "str_nat n =
     (if n < 10 then [''0123456789'' ! n]
      else str_nat (n div 10) @ [''0123456789'' ! (n mod 10)])"

declare str_nat.simps [simp del]

text \<open>The \<open>for char in private_key_wif\<close> loop: the first foreign character raises.\<close>

fun check_private_key_chars :: "string \<Rightarrow> error + unit" where
  "check_private_key_chars [] = Inr ()"
| "check_private_key_chars (char # rest) =
     (if char \<notin> set b58_digits
      then Inl (raise_exceptions_TransactionError ''invalid private key'')
      else check_private_key_chars rest)"

text \<open>
  The \<open>while True\<close> loop around the signing tool. It ends only when a call raises, so
  it is a partial function: \<open>None\<close> is the loop that never ends. The index \<open>i\<close> is an
  argument that every iteration passes on as it got it: the source sets \<open>i = 0\<close>
  before the loop and never assigns it again. The result is the last \<open>tx_hex\<close> with
  the events so far.
\<close>

partial_function (option) pybtctool_loop ::
  "collaborators \<Rightarrow> string \<Rightarrow> nat \<Rightarrow> pyval \<Rightarrow> event list \<Rightarrow> (pyval \<times> event list) option" where
  "pybtctool_loop w private_key_wif i tx_hex tr =
     (case pybtctool w tx_hex (str_nat i) private_key_wif of
        None \<Rightarrow> Some (tx_hex, tr @ [Call_pybtctool tx_hex (str_nat i) private_key_wif])
      | Some out \<Rightarrow>
          pybtctool_loop w private_key_wif i (Bytes out)
            (tr @ [Call_pybtctool tx_hex (str_nat i) private_key_wif]))"

text \<open>
  \<open>tx_hex.decode('utf-8')\<close>. The tool prints hexadecimal digits and a newline; the
  model decodes ASCII and reports any byte from 128 on as a decoding error, without
  following multi-byte sequences. A \<open>str\<close> has no method \<open>decode\<close>.
\<close>

definition decode_utf8 :: "pyval \<Rightarrow> error + string" where
  "decode_utf8 v =
     (case v of
        Str s \<Rightarrow> Inl AttributeError
      | Bytes b \<Rightarrow> (if list_all (\<lambda>ch. of_char ch < (128::nat)) b then Inr b
                    else Inl UnicodeDecodeError))"

text \<open>The last three statements of \<open>sign_tx\<close>, which both signing paths reach.\<close>

definition send_signed ::
  "collaborators \<Rightarrow> string \<Rightarrow> event list \<Rightarrow> (error + unit) \<times> event list" where
  "send_signed w signed_tx_hex tr =
     (case send_raw_transaction w signed_tx_hex of
        Inl e \<Rightarrow> (Inl e, tr @ [Log_signed signed_tx_hex, Call_send_raw_transaction signed_tx_hex])
      | Inr tx_hash \<Rightarrow>
          (Inr (), tr @ [Log_signed signed_tx_hex, Call_send_raw_transaction signed_tx_hex,
                         Log_broadcasted tx_hash]))"

text \<open>
  \<open>sign_tx\<close>. \<open>stdin\<close> holds the lines the operator will type; \<open>input\<close> takes the first
  and raises \<open>EOFError\<close> when there is none. The function returns \<open>None\<close> in Python on
  every path that does not raise, here \<open>Inr ()\<close>, with the events it caused; the outer
  \<open>option\<close> is \<open>None\<close> when the signing loop never ends.
\<close>

definition sign_tx ::
  "collaborators \<Rightarrow> string list \<Rightarrow> string \<Rightarrow> string \<Rightarrow> ((error + unit) \<times> event list) option" where
  "sign_tx w stdin unsigned_tx_hex source =
     (let tr0 = [Log_unsigned unsigned_tx_hex] in
      if is_multisig w source then Some (Inr (), tr0 @ [Log_multisig_manual])
      else
        (case stdin of
           [] \<Rightarrow> Some (Inl EOFError, tr0 @ [Input_confirm])
         | answer # stdin1 \<Rightarrow>
             let tr1 = tr0 @ [Input_confirm] in
             if answer = ''y'' then
               (let tr2 = tr1 @ [Call_is_mine source] in
                case is_mine w source of
                  Inl e \<Rightarrow> Some (Inl e, tr2)
                | Inr True \<Rightarrow>
                    (let tr3 = tr2 @ [Call_sign_raw_transaction unsigned_tx_hex] in
                     case sign_raw_transaction w unsigned_tx_hex of
                       Inl e \<Rightarrow> Some (Inl e, tr3)
                     | Inr signed_tx_hex \<Rightarrow> Some (send_signed w signed_tx_hex tr3))
                | Inr False \<Rightarrow>
                    (let tr3 = tr2 @ [Input_private_key source] in
                     case stdin1 of
                       [] \<Rightarrow> Some (Inl EOFError, tr3)
                     | private_key_wif # stdin2 \<Rightarrow>
                         if private_key_wif = [] then
                           Some (Inl (raise_exceptions_TransactionError ''invalid private key''), tr3)
                         else
                           (case check_private_key_chars private_key_wif of
                              Inl e \<Rightarrow> Some (Inl e, tr3)
                            | Inr u \<Rightarrow>
                                (case pybtctool_loop w private_key_wif 0 (Str unsigned_tx_hex) tr3 of
                                   None \<Rightarrow> None
                                 | Some (tx_hex, tr4) \<Rightarrow>
                                     if tx_hex \<noteq> Str unsigned_tx_hex then
                                       (case decode_utf8 tx_hex of
                                          Inl e \<Rightarrow> Some (Inl e, tr4)
                                        | Inr signed_tx_hex \<Rightarrow>
                                            Some (send_signed w (butlast signed_tx_hex) tr4))
                                     else
                                       Some (Inl (raise_exceptions_TransactionError
                                                    ''Could not sign transaction with pybtctool.''),
                                             tr4)))))
             else Some (Inr (), tr1)))"

section \<open>Auxiliary definitions for the statements\<close>

text \<open>
  The helpers outside \<open>client.py\<close> return: \<open>util.value_out\<close> and \<open>decimal.Decimal\<close>
  raise on no argument, and the ledger answers the query of \<open>last_db_block_index\<close>.
\<close>

definition helpers_return :: "'v helpers \<Rightarrow> bool" where
  "helpers_return h =
     ((\<forall>q a. \<exists>v. value_out h q a = Inr v) \<and> (\<forall>v. \<exists>d. D_value h v = Inr d)
      \<and> (\<exists>rows. api_sql_block_index h = Inr rows))"


text \<open>The events that sign with the wallet, run the signing tool or submit to the network.\<close>

fun invokes_signing_or_network :: "event \<Rightarrow> bool" where
  "invokes_signing_or_network (Call_sign_raw_transaction tx) = True"
| "invokes_signing_or_network (Call_pybtctool tx i key) = True"
| "invokes_signing_or_network (Call_send_raw_transaction tx) = True"
| "invokes_signing_or_network e = False"

section \<open>Concrete inputs\<close>

text \<open>
  Stand-ins for the helpers: \<open>value_out\<close> hands back the quantity and the asset it was
  given, so that a row shows what was passed to it.
\<close>

definition example_helpers :: "(rat \<times> string) helpers" where
  "example_helpers =
     \<lparr>value_out = (\<lambda>q a. Inr (q, a)),
      D_value = (\<lambda>v. Inr (fst v)),
      api_sql_block_index = Inr [300000],
      BET_TYPE_NAME = [0 \<mapsto> ''BullCFD'', 1 \<mapsto> ''BearCFD'', 2 \<mapsto> ''Equal'', 3 \<mapsto> ''NotEqual''],
      isodt = (\<lambda>t. ''<datetime>''),
      str_per_UNIT = (\<lambda>x. ''<float>'')\<rparr>"






text \<open>
  A wallet that owns the address \<open>1mine\<close>, a network that accepts everything, and a
  signing tool for a transaction \<open>0100\<close> with two inputs: it signs input 0 of the
  unsigned transaction and input 1 of what that gave, printing a newline after the
  result, and fails on every other call.
\<close>

definition example_collaborators :: collaborators where
  "example_collaborators =
     \<lparr>is_multisig = (\<lambda>address. CHR ''_'' \<in> set address),
      is_mine = (\<lambda>address. Inr (address = ''1mine'')),
      sign_raw_transaction = (\<lambda>tx. Inr (tx @ ''ff'')),
      pybtctool = (\<lambda>tx_hex i key.
         if tx_hex = Str ''0100'' \<and> i = ''0'' then Some (''0100aa'' @ [CHR 0x0A])
         else if tx_hex = Bytes (''0100aa'' @ [CHR 0x0A]) \<and> i = ''1''
           then Some (''0100aabb'' @ [CHR 0x0A])
         else None),
      send_raw_transaction = (\<lambda>tx. Inr ''abc123'')\<rparr>"

text \<open>The same with a signing tool that fails on every call.\<close>

definition failing_tool_collaborators :: collaborators where
  "failing_tool_collaborators = example_collaborators\<lparr>pybtctool := (\<lambda>tx_hex i key. None)\<rparr>"

text \<open>
  The same with a signing tool that signs input 0 whenever it is asked to, also when
  that input is signed already, and knows no other input.
\<close>

definition resigning_tool_collaborators :: collaborators where
  "resigning_tool_collaborators =
     example_collaborators\<lparr>pybtctool := (\<lambda>tx_hex i key.
        if i = ''0'' then Some (''0100aa'' @ [CHR 0x0A]) else None)\<rparr>"

section \<open>Basic facts\<close>

lemma and_then_Inr [simp]: "and_then (Inr x) f = f x"
  by (simp add: and_then_def)

lemma and_then_Inl [simp]: "and_then (Inl e) f = Inl e"
  by (simp add: and_then_def)




lemma example_helpers_return: "helpers_return example_helpers"
  by (simp add: helpers_return_def example_helpers_def)

section \<open>Network parameters\<close>


section \<open>Orders, bets and order matches\<close>





text \<open>
  C5. The identifier of an order match does not depend on the order of the two
  hashes: \<open>make_id\<close> gives the same string for both orders, and so does
  \<open>format_order_match\<close> for a match record and the record with its two hashes swapped.
\<close>

theorem make_id_order_independent:
  "make_id h1 h2 = make_id h2 h1
   \<and> map_sum id fst
       (format_order_match h \<lparr>tx0_hash = h1, tx1_hash = h2, match_expire_index = n\<rparr>)
     = map_sum id fst
       (format_order_match h \<lparr>tx0_hash = h2, tx1_hash = h1, match_expire_index = n\<rparr>)"
proof -
  have "make_id h1 h2 = make_id h2 h1"
    by (auto simp: make_id_def)
  then show ?thesis
    by (simp add: format_order_match_def)
qed






section \<open>The feed digest of \<open>market\<close>\<close>









section \<open>Signing and broadcasting\<close>

lemma check_private_key_chars_foreign:
  "\<exists>ch \<in> set key. ch \<notin> set b58_digits
     \<Longrightarrow> check_private_key_chars key = Inl (NameError ''exceptions'')"
  by (induction key) (auto simp: raise_exceptions_TransactionError_def)

lemma check_private_key_chars_ok:
  "\<forall>ch \<in> set key. ch \<in> set b58_digits \<Longrightarrow> check_private_key_chars key = Inr ()"
  by (induction key) auto

lemma sign_tx_invalid_private_key:
  assumes "\<not> is_multisig w source" and "is_mine w source = Inr False"
    and "key = [] \<or> (\<exists>ch \<in> set key. ch \<notin> set b58_digits)"
  shows "sign_tx w (''y'' # key # rest) unsigned_tx_hex source =
     Some (Inl (NameError ''exceptions''),
           [Log_unsigned unsigned_tx_hex, Input_confirm, Call_is_mine source,
            Input_private_key source])"
proof (cases "key = []")
  case True
  with assms(1,2) show ?thesis
    by (simp add: sign_tx_def raise_exceptions_TransactionError_def)
next
  case False
  with assms(3) have "check_private_key_chars key = Inl (NameError ''exceptions'')"
    by (simp add: check_private_key_chars_foreign)
  with False assms(1,2) show ?thesis
    by (simp add: sign_tx_def)
qed

lemma pybtctool_loop_stops:
  "pybtctool w tx_hex (str_nat i) key = None
     \<Longrightarrow> pybtctool_loop w key i tx_hex tr
           = Some (tx_hex, tr @ [Call_pybtctool tx_hex (str_nat i) key])"
  by (subst pybtctool_loop.simps) simp

lemma pybtctool_loop_again:
  "pybtctool w tx_hex (str_nat i) key = Some out
     \<Longrightarrow> pybtctool_loop w key i tx_hex tr
           = pybtctool_loop w key i (Bytes out) (tr @ [Call_pybtctool tx_hex (str_nat i) key])"
  by (subst pybtctool_loop.simps) simp

lemma str_nat_0: "str_nat 0 = ''0''"
  by (simp add: str_nat.simps)

lemma pybtctool_loop_index:
  assumes "pybtctool_loop w key i tx_hex tr = Some y"
  shows "\<forall>e \<in> set (snd y). e \<in> set tr \<or> (\<exists>t. e = Call_pybtctool t (str_nat i) key)"
  using assms
proof (induction rule: pybtctool_loop.raw_induct [rotated 1, consumes 1, case_names step])
  case (step loop w key i tx_hex tr y)
  show ?case
  proof (cases "pybtctool w tx_hex (str_nat i) key")
    case None
    with step.hyps show ?thesis by auto
  next
    case (Some out)
    with step.hyps have "loop w key i (Bytes out) (tr @ [Call_pybtctool tx_hex (str_nat i) key]) = Some y"
      by simp
    from step.IH [OF this] show ?thesis by auto
  qed
qed

lemma pybtctool_loop_unchanged:
  assumes "pybtctool_loop w key i tx_hex tr = Some y"
  shows "fst y = tx_hex \<or> (\<exists>b. fst y = Bytes b)"
  using assms
proof (induction rule: pybtctool_loop.raw_induct [rotated 1, consumes 1, case_names step])
  case (step loop w key i tx_hex tr y)
  show ?case
  proof (cases "pybtctool w tx_hex (str_nat i) key")
    case None
    with step.hyps show ?thesis by auto
  next
    case (Some out)
    with step.hyps have "loop w key i (Bytes out) (tr @ [Call_pybtctool tx_hex (str_nat i) key]) = Some y"
      by simp
    from step.IH [OF this] show ?thesis by auto
  qed
qed

lemma pybtctool_loop_resigning:
  "pybtctool_loop resigning_tool_collaborators key 0 tx_hex tr = None"
proof -
  have "w = resigning_tool_collaborators \<and> i = 0 \<longrightarrow> False"
    if "pybtctool_loop w key i tx_hex tr = Some y" for w i y
    using that
  proof (induction rule: pybtctool_loop.raw_induct [rotated 1, consumes 1, case_names step])
    case (step loop w key i tx_hex tr y)
    show ?case
    proof
      assume a: "w = resigning_tool_collaborators \<and> i = 0"
      then have "pybtctool w tx_hex (str_nat i) key = Some (''0100aa'' @ [CHR 0x0A])"
        by (simp add: resigning_tool_collaborators_def str_nat_0)
      with step.hyps
      have "loop w key i (Bytes (''0100aa'' @ [CHR 0x0A]))
              (tr @ [Call_pybtctool tx_hex (str_nat i) key]) = Some y"
        by simp
      from step.IH [OF this] a show False by simp
    qed
  qed
  then show ?thesis
    by (cases "pybtctool_loop resigning_tool_collaborators key 0 tx_hex tr") auto
qed

lemma example_collaborators_simps:
  "is_multisig example_collaborators a = (CHR ''_'' \<in> set a)"
  "is_mine example_collaborators a = Inr (a = ''1mine'')"
  "sign_raw_transaction example_collaborators tx = Inr (tx @ ''ff'')"
  "send_raw_transaction example_collaborators tx = Inr ''abc123''"
  by (simp_all add: example_collaborators_def)

lemma failing_tool_collaborators_simps:
  "is_multisig failing_tool_collaborators a = (CHR ''_'' \<in> set a)"
  "is_mine failing_tool_collaborators a = Inr (a = ''1mine'')"
  "pybtctool failing_tool_collaborators tx i key = None"
  by (simp_all add: failing_tool_collaborators_def example_collaborators_def)

lemma resigning_tool_collaborators_simps:
  "is_multisig resigning_tool_collaborators a = (CHR ''_'' \<in> set a)"
  "is_mine resigning_tool_collaborators a = Inr (a = ''1mine'')"
  by (simp_all add: resigning_tool_collaborators_def example_collaborators_def)

lemma sign_tx_first_call_fails:
  assumes "\<not> is_multisig w source" and "is_mine w source = Inr False"
    and "key \<noteq> []" and "\<forall>ch \<in> set key. ch \<in> set b58_digits"
    and "pybtctool w (Str unsigned_tx_hex) ''0'' key = None"
  shows "sign_tx w (''y'' # key # rest) unsigned_tx_hex source =
     Some (Inl (NameError ''exceptions''),
           [Log_unsigned unsigned_tx_hex, Input_confirm, Call_is_mine source,
            Input_private_key source, Call_pybtctool (Str unsigned_tx_hex) ''0'' key])"
proof -
  from assms(4) have "check_private_key_chars key = Inr ()"
    by (rule check_private_key_chars_ok)
  moreover from assms(5)
  have "pybtctool_loop w key 0 (Str unsigned_tx_hex) tr
          = Some (Str unsigned_tx_hex, tr @ [Call_pybtctool (Str unsigned_tx_hex) ''0'' key])"
    for tr
    using pybtctool_loop_stops [of w "Str unsigned_tx_hex" 0 key tr] by (simp add: str_nat_0)
  ultimately show ?thesis
    using assms(1,2,3)
    by (simp add: sign_tx_def raise_exceptions_TransactionError_def)
qed

text \<open>
  C2. When the source address is a multi-signature address, \<open>sign_tx\<close> returns at
  once: it logs the unsigned transaction and the notice that such transactions are
  signed and broadcast by hand, and does nothing else. It asks the operator nothing
  and calls neither the wallet nor the signing tool nor the network.
\<close>

theorem sign_tx_multisig_deferred:
  "is_multisig w source \<Longrightarrow>
   sign_tx w stdin unsigned_tx_hex source =
     Some (Inr (), [Log_unsigned unsigned_tx_hex, Log_multisig_manual])"
  by (simp add: sign_tx_def)

text \<open>C2 on a two-of-two address, with an operator who would have answered yes.\<close>

theorem sign_tx_multisig_deferred_witness:
  "is_multisig example_collaborators ''2_1A_1B_2'' \<and>
   sign_tx example_collaborators [''y''] ''0100'' ''2_1A_1B_2'' =
     Some (Inr (), [Log_unsigned ''0100'', Log_multisig_manual])"
proof -
  have m: "is_multisig example_collaborators ''2_1A_1B_2''"
    by (simp add: example_collaborators_def)
  from m sign_tx_multisig_deferred [OF m] show ?thesis by simp
qed

text \<open>
  C3 says that a private key with a character outside the Base58 alphabet ends the
  flow with the failure ``invalid private key'', the wallet's signing and the network
  never being called. On the key \<open>5Kb!\<close>, for an address that the wallet does not own,
  the wallet's signing and the network are indeed not called, but what \<open>sign_tx\<close> raises
  is the \<open>NameError\<close> for \<open>exceptions\<close>, not a transaction error that names the key.
  (\<open>sign_tx_invalid_private_key\<close> above is the same for every empty or foreign key.)
\<close>

theorem sign_tx_invalid_key_example:
  "sign_tx example_collaborators [''y'', ''5Kb!''] ''0100'' ''1other'' =
     Some (Inl (NameError ''exceptions''),
           [Log_unsigned ''0100'', Input_confirm, Call_is_mine ''1other'',
            Input_private_key ''1other''])"
  by (simp add: sign_tx_def example_collaborators_simps b58_digits_def
      raise_exceptions_TransactionError_def)

text \<open>
  C6 says that when the signing loop leaves the transaction as it was, the flow ends
  with the failure that the signing tool could not sign, and nothing is broadcast.
  With a tool that fails on its first call the transaction is unchanged and nothing is
  broadcast, but what \<open>sign_tx\<close> raises is again the \<open>NameError\<close> for \<open>exceptions\<close>.
  (\<open>sign_tx_first_call_fails\<close> above is the same for every such tool and key.)
\<close>

theorem sign_tx_unchanged_example:
  "sign_tx failing_tool_collaborators [''y'', ''5Kb''] ''0100'' ''1other'' =
     Some (Inl (NameError ''exceptions''),
           [Log_unsigned ''0100'', Input_confirm, Call_is_mine ''1other'',
            Input_private_key ''1other'', Call_pybtctool (Str ''0100'') ''0'' ''5Kb''])"
  by (simp add: sign_tx_def failing_tool_collaborators_simps b58_digits_def
      raise_exceptions_TransactionError_def pybtctool_loop_stops str_nat_0)

lemma pybtctool_loop_example:
  "pybtctool_loop example_collaborators ''5Kb'' 0 (Str ''0100'') tr =
     Some (Bytes (''0100aa'' @ [CHR 0x0A]),
           tr @ [Call_pybtctool (Str ''0100'') ''0'' ''5Kb'',
                 Call_pybtctool (Bytes (''0100aa'' @ [CHR 0x0A])) ''0'' ''5Kb''])"
proof -
  have "pybtctool_loop example_collaborators ''5Kb'' 0 (Str ''0100'') tr =
        pybtctool_loop example_collaborators ''5Kb'' 0 (Bytes (''0100aa'' @ [CHR 0x0A]))
          (tr @ [Call_pybtctool (Str ''0100'') (str_nat 0) ''5Kb''])"
    by (rule pybtctool_loop_again) (simp add: example_collaborators_def str_nat_0)
  also have "\<dots> = Some (Bytes (''0100aa'' @ [CHR 0x0A]),
      (tr @ [Call_pybtctool (Str ''0100'') (str_nat 0) ''5Kb''])
        @ [Call_pybtctool (Bytes (''0100aa'' @ [CHR 0x0A])) (str_nat 0) ''5Kb''])"
    by (rule pybtctool_loop_stops) (simp add: example_collaborators_def str_nat_0)
  finally show ?thesis by (simp add: str_nat_0)
qed

text \<open>
  C7 says that the signing tool is run once per input index, 0, then 1 and so on, on
  the output of the run before, until it fails. On a transaction with two inputs and
  a tool that signs each input once, the second run is on the output of the first,
  but again for index 0: it fails, the loop ends, and the transaction with only its
  first input signed is broadcast. Index 1 is never asked for.
  (\<open>pybtctool_loop_index\<close> above: no run of the loop is for another index than the one
  it started with.)
\<close>

theorem sign_tx_index_example:
  "sign_tx example_collaborators [''y'', ''5Kb''] ''0100'' ''1other'' =
     Some (Inr (),
           [Log_unsigned ''0100'', Input_confirm, Call_is_mine ''1other'',
            Input_private_key ''1other'',
            Call_pybtctool (Str ''0100'') ''0'' ''5Kb'',
            Call_pybtctool (Bytes (''0100aa'' @ [CHR 0x0A])) ''0'' ''5Kb'',
            Log_signed ''0100aa'', Call_send_raw_transaction ''0100aa'',
            Log_broadcasted ''abc123''])"
  by (simp add: sign_tx_def example_collaborators_simps b58_digits_def
      pybtctool_loop_example decode_utf8_def send_signed_def)

text \<open>
  With a tool that signs input 0 again whenever it is asked to, the loop asks for
  input 0 for ever, and \<open>sign_tx\<close> does not return.
\<close>

lemma sign_tx_never_returns_example:
  "sign_tx resigning_tool_collaborators [''y'', ''5Kb''] ''0100'' ''1other'' = None"
  by (simp add: sign_tx_def pybtctool_loop_resigning resigning_tool_collaborators_simps
      b58_digits_def)

text \<open>
  C10. For a source address that is not multi-signature, any answer to the
  confirmation prompt other than the one-letter string \<open>y\<close> ends \<open>sign_tx\<close> after the
  prompt: the wallet is not asked, nothing is signed and nothing is submitted.
  Conversely, whenever a run signs with the wallet, runs the signing tool or submits
  to the network, the answer was \<open>y\<close>.
\<close>

theorem sign_tx_confirmation_gate:
  assumes "\<not> is_multisig w source"
  shows "(answer \<noteq> ''y'' \<longrightarrow>
            sign_tx w (answer # rest) unsigned_tx_hex source =
              Some (Inr (), [Log_unsigned unsigned_tx_hex, Input_confirm]))
     \<and> (sign_tx w (answer # rest) unsigned_tx_hex source = Some (r, tr)
          \<and> (\<exists>e \<in> set tr. invokes_signing_or_network e) \<longrightarrow> answer = ''y'')"
proof -
  have declined: "sign_tx w (answer # rest) unsigned_tx_hex source =
      Some (Inr (), [Log_unsigned unsigned_tx_hex, Input_confirm])" if "answer \<noteq> ''y''"
    using assms that by (simp add: sign_tx_def)
  then show ?thesis by (cases "answer = ''y''") auto
qed

text \<open>
  C10 on the answers \<open>Y\<close>, \<open>yes\<close> and the empty line, each of which ends the flow,
  beside the answer \<open>y\<close>, which signs with the wallet and broadcasts.
\<close>

theorem sign_tx_confirmation_gate_witness:
  "\<not> is_multisig example_collaborators ''1mine''
   \<and> sign_tx example_collaborators [''Y''] ''0100'' ''1mine'' =
       Some (Inr (), [Log_unsigned ''0100'', Input_confirm])
   \<and> sign_tx example_collaborators [''yes''] ''0100'' ''1mine'' =
       Some (Inr (), [Log_unsigned ''0100'', Input_confirm])
   \<and> sign_tx example_collaborators [[]] ''0100'' ''1mine'' =
       Some (Inr (), [Log_unsigned ''0100'', Input_confirm])
   \<and> sign_tx example_collaborators [''y''] ''0100'' ''1mine'' =
       Some (Inr (), [Log_unsigned ''0100'', Input_confirm, Call_is_mine ''1mine'',
                      Call_sign_raw_transaction ''0100'', Log_signed ''0100ff'',
                      Call_send_raw_transaction ''0100ff'', Log_broadcasted ''abc123''])"
proof -
  have m: "\<not> is_multisig example_collaborators ''1mine''"
    by (simp add: example_collaborators_def)
  note gate = sign_tx_confirmation_gate [OF m, THEN conjunct1, rule_format]
  have upper: "sign_tx example_collaborators [''Y''] ''0100'' ''1mine'' =
       Some (Inr (), [Log_unsigned ''0100'', Input_confirm])"
    by (rule gate) simp
  have word: "sign_tx example_collaborators [''yes''] ''0100'' ''1mine'' =
       Some (Inr (), [Log_unsigned ''0100'', Input_confirm])"
    by (rule gate) simp
  have empty: "sign_tx example_collaborators [[]] ''0100'' ''1mine'' =
       Some (Inr (), [Log_unsigned ''0100'', Input_confirm])"
    by (rule gate) simp
  have yes: "sign_tx example_collaborators [''y''] ''0100'' ''1mine'' =
       Some (Inr (), [Log_unsigned ''0100'', Input_confirm, Call_is_mine ''1mine'',
                      Call_sign_raw_transaction ''0100'', Log_signed ''0100ff'',
                      Call_send_raw_transaction ''0100ff'', Log_broadcasted ''abc123''])"
    by (simp add: sign_tx_def example_collaborators_simps send_signed_def)
  from m upper word empty yes show ?thesis by blast
qed

end
